theory Spec2Isabelle
  imports Main "HOL-Library.Word" "HOL-Library.Signed_Division"
begin

section \<open>Machine integers of \<^verbatim>\<open>gekko_math.h\<close>\<close>

text \<open>
  \<^verbatim>\<open>int32_t\<close> and \<^verbatim>\<open>int64_t\<close> are two's complement words. Addition, subtraction,
  negation and multiplication wrap around; comparisons read the word as signed
  (\<open><s\<close>, \<open>\<le>s\<close>); \<^verbatim>\<open>/\<close> truncates towards zero (\<open>sdiv\<close> on the signed values);
  widening to 64 bits is \<open>scast\<close>, \<^verbatim>\<open>static_cast<int32_t>\<close> of a 64-bit value keeps
  the low 32 bits (\<open>ucast\<close>).
\<close>

type_synonym int32 = "32 word"
type_synonym int64 = "64 word"

definition sdiv_i32 :: "int32 \<Rightarrow> int32 \<Rightarrow> int32" where
  "sdiv_i32 a b = word_of_int (sint a sdiv sint b)"

definition sdiv_i64 :: "int64 \<Rightarrow> int64 \<Rightarrow> int64" where
  "sdiv_i64 a b = word_of_int (sint a sdiv sint b)"

text \<open>\<^verbatim>\<open>std::abs(int)\<close>: the negation wraps, so the most negative value is its own
  absolute value.\<close>

definition abs_i32 :: "int32 \<Rightarrow> int32" where
  "abs_i32 v = (if v <s 0 then - v else v)"

section \<open>The fixed-point scalar \<^verbatim>\<open>Unit\<close>\<close>

record Unit =
  raw :: int32

definition ONE :: int32 where
  "ONE = 0x8000"

definition HALF :: int32 where
  "HALF = 0x4000"

text \<open>\<^verbatim>\<open>Unit(int32_t val) : _raw(val * ONE)\<close>, the converting constructor.\<close>

definition Unit_ctor :: "int32 \<Rightarrow> Unit" where
  "Unit_ctor val = \<lparr> raw = val * ONE \<rparr>"

text \<open>\<^verbatim>\<open>Unit::From\<close>: the raw value is stored as it is.\<close>

definition From :: "int32 \<Rightarrow> Unit" where
  "From val = \<lparr> raw = val \<rparr>"

subsection \<open>Comparison\<close>

definition Unit_gt :: "Unit \<Rightarrow> Unit \<Rightarrow> bool" where
  "Unit_gt a other = (raw other <s raw a)"

definition Unit_ge :: "Unit \<Rightarrow> Unit \<Rightarrow> bool" where
  "Unit_ge a other = (raw other \<le>s raw a)"

definition Unit_lt :: "Unit \<Rightarrow> Unit \<Rightarrow> bool" where
  "Unit_lt a other = (raw a <s raw other)"

definition Unit_le :: "Unit \<Rightarrow> Unit \<Rightarrow> bool" where
  "Unit_le a other = (raw a \<le>s raw other)"

text \<open>The overloads taking \<^verbatim>\<open>const int32_t&\<close>. An \<^verbatim>\<open>int\<close> argument binds to them
  without a conversion, so they are the ones chosen for \<^verbatim>\<open>a > 6\<close>.\<close>

definition Unit_gt_int :: "Unit \<Rightarrow> int32 \<Rightarrow> bool" where
  "Unit_gt_int a other = (other <s raw a)"

definition Unit_ge_int :: "Unit \<Rightarrow> int32 \<Rightarrow> bool" where
  "Unit_ge_int a other = (other \<le>s raw a)"

definition Unit_lt_int :: "Unit \<Rightarrow> int32 \<Rightarrow> bool" where
  "Unit_lt_int a other = (raw a <s other)"

definition Unit_le_int :: "Unit \<Rightarrow> int32 \<Rightarrow> bool" where
  "Unit_le_int a other = (raw a \<le>s other)"

definition Unit_eq :: "Unit \<Rightarrow> Unit \<Rightarrow> bool" where
  "Unit_eq a other = (raw a = raw other)"

definition Unit_ne :: "Unit \<Rightarrow> Unit \<Rightarrow> bool" where
  "Unit_ne a other = (raw a \<noteq> raw other)"

text \<open>\<^verbatim>\<open>a == n\<close> with an \<^verbatim>\<open>int\<close> on the right: there is no \<^verbatim>\<open>operator==\<close> for
  \<^verbatim>\<open>int32_t\<close>, so \<open>n\<close> goes through the converting constructor first.\<close>

definition Unit_eq_int :: "Unit \<Rightarrow> int32 \<Rightarrow> bool" where
  "Unit_eq_int a n = Unit_eq a (Unit_ctor n)"

subsection \<open>Arithmetic\<close>

datatype error = runtime_error string

definition Unit_neg :: "Unit \<Rightarrow> Unit" where
  "Unit_neg a = From (- raw a)"

definition Unit_add :: "Unit \<Rightarrow> Unit \<Rightarrow> Unit" where
  "Unit_add a other = From (raw a + raw other)"

definition Unit_sub :: "Unit \<Rightarrow> Unit \<Rightarrow> Unit" where
  "Unit_sub a other = From (raw a - raw other)"

definition Unit_div :: "Unit \<Rightarrow> Unit \<Rightarrow> error + Unit" where
  "Unit_div a other =
     (if raw other = 0 then Inl (runtime_error ''Division by zero'')
      else
        let num = (scast (raw a) :: int64) * scast ONE;
            adjust = (scast (sdiv_i32 (abs_i32 (raw other)) 2) :: int64)
        in Inr (From (ucast (sdiv_i64 (num + (if 0 <s raw other then adjust else - adjust))
                                      (scast (raw other))))))"

definition Unit_mul :: "Unit \<Rightarrow> Unit \<Rightarrow> Unit" where
  "Unit_mul a other =
     (let result = (scast (raw a) :: int64) * scast (raw other)
      in From (ucast (sdiv_i64 (result + scast (sdiv_i32 ONE 2)) (scast ONE))))"

subsection \<open>Compound assignment\<close>

text \<open>
  \<^verbatim>\<open>*this = *this / other; return *this;\<close> The right-hand side is evaluated before
  the assignment; when it throws, the assignment is never reached. The model of a
  compound assignment that can throw returns the exception raised, if any, together with
  the value the left operand holds afterwards.
\<close>

definition Unit_mul_assign :: "Unit \<Rightarrow> Unit \<Rightarrow> Unit" where
  "Unit_mul_assign this other = Unit_mul this other"

definition Unit_div_assign :: "Unit \<Rightarrow> Unit \<Rightarrow> error option \<times> Unit" where
  "Unit_div_assign this other =
     (case Unit_div this other of
        Inl e \<Rightarrow> (Some e, this)
      | Inr v \<Rightarrow> (None, v))"

subsection \<open>Square root\<close>

definition MAX_ITER :: nat where
  "MAX_ITER = 10"

text \<open>
  \<^verbatim>\<open>Unit x = (u._raw >= Unit::ONE ? u : Unit::ONE);\<close> The second operand is a
  \<^verbatim>\<open>Unit\<close> and the third an \<^verbatim>\<open>int32_t\<close>; the only conversion between the two is the
  converting constructor, so the third operand is \<^verbatim>\<open>Unit(Unit::ONE)\<close>.
\<close>

definition SqrtNewton_guess :: "Unit \<Rightarrow> Unit" where
  "SqrtNewton_guess u = (if ONE \<le>s raw u then u else Unit_ctor ONE)"

text \<open>
  The \<^verbatim>\<open>for\<close> loop. The first argument is the number of iterations left
  (\<^verbatim>\<open>MAX_ITER - i\<close>), the last counts the Newton updates computed so far. In
  \<^verbatim>\<open>(x + (u / x)) / 2\<close> the literal goes through the converting constructor. Both
  divisions can throw.
\<close>

fun SqrtNewton_loop :: "nat \<Rightarrow> Unit \<Rightarrow> Unit \<Rightarrow> nat \<Rightarrow> error + (Unit \<times> nat)" where
  "SqrtNewton_loop 0 u x k = Inr (x, k)"
| "SqrtNewton_loop (Suc n) u x k =
     (case Unit_div u x of
        Inl e \<Rightarrow> Inl e
      | Inr q \<Rightarrow>
          (case Unit_div (Unit_add x q) (Unit_ctor 2) of
             Inl e \<Rightarrow> Inl e
           | Inr next \<Rightarrow>
               if Unit_eq next x then Inr (x, Suc k)
               else SqrtNewton_loop n u next (Suc k)))"

text \<open>\<^verbatim>\<open>SqrtNewton\<close> with the number of Newton updates it computed; \<^verbatim>\<open>return 0\<close>
  goes through the converting constructor.\<close>

definition SqrtNewton_steps :: "Unit \<Rightarrow> error + (Unit \<times> nat)" where
  "SqrtNewton_steps u =
     (if raw u <s 0 then Inl (runtime_error ''sqrt of negative number'')
      else if raw u = 0 then Inr (Unit_ctor 0, 0)
      else SqrtNewton_loop MAX_ITER u (SqrtNewton_guess u) 0)"

definition SqrtNewton :: "Unit \<Rightarrow> error + Unit" where
  "SqrtNewton u = map_sum id fst (SqrtNewton_steps u)"

section \<open>The vector \<^verbatim>\<open>Vec3\<close>\<close>

text \<open>The fields \<^verbatim>\<open>x\<close>, \<^verbatim>\<open>y\<close>, \<^verbatim>\<open>z\<close>.\<close>

record Vec3 =
  vx :: Unit
  vy :: Unit
  vz :: Unit

definition Dot :: "Vec3 \<Rightarrow> Vec3 \<Rightarrow> Unit" where
  "Dot v other =
     Unit_add (Unit_add (Unit_mul (vx v) (vx other)) (Unit_mul (vy v) (vy other)))
              (Unit_mul (vz v) (vz other))"

definition Vec3_add :: "Vec3 \<Rightarrow> Vec3 \<Rightarrow> Vec3" where
  "Vec3_add v other =
     \<lparr> vx = Unit_add (vx v) (vx other), vy = Unit_add (vy v) (vy other),
       vz = Unit_add (vz v) (vz other) \<rparr>"

definition Vec3_sub :: "Vec3 \<Rightarrow> Vec3 \<Rightarrow> Vec3" where
  "Vec3_sub v other =
     \<lparr> vx = Unit_sub (vx v) (vx other), vy = Unit_sub (vy v) (vy other),
       vz = Unit_sub (vz v) (vz other) \<rparr>"

definition Vec3_mul :: "Vec3 \<Rightarrow> Vec3 \<Rightarrow> Vec3" where
  "Vec3_mul v other =
     \<lparr> vx = Unit_mul (vx v) (vx other), vy = Unit_mul (vy v) (vy other),
       vz = Unit_mul (vz v) (vz other) \<rparr>"

text \<open>
  \<^verbatim>\<open>Vec3(x / other.x, y / other.y, z / other.z)\<close>: the three quotients are computed
  before the vector is built, and the first one that throws ends the call. Every throw
  of \<^verbatim>\<open>Unit::operator/\<close> carries the same exception, so the order in which the
  arguments are evaluated does not show in the result.
\<close>

definition Vec3_div :: "Vec3 \<Rightarrow> Vec3 \<Rightarrow> error + Vec3" where
  "Vec3_div v other =
     (case Unit_div (vx v) (vx other) of
        Inl e \<Rightarrow> Inl e
      | Inr xx \<Rightarrow>
          (case Unit_div (vy v) (vy other) of
             Inl e \<Rightarrow> Inl e
           | Inr yy \<Rightarrow>
               (case Unit_div (vz v) (vz other) of
                  Inl e \<Rightarrow> Inl e
                | Inr zz \<Rightarrow> Inr \<lparr> vx = xx, vy = yy, vz = zz \<rparr>)))"

definition Vec3_div_Unit :: "Vec3 \<Rightarrow> Unit \<Rightarrow> error + Vec3" where
  "Vec3_div_Unit v other =
     (case Unit_div (vx v) other of
        Inl e \<Rightarrow> Inl e
      | Inr xx \<Rightarrow>
          (case Unit_div (vy v) other of
             Inl e \<Rightarrow> Inl e
           | Inr yy \<Rightarrow>
               (case Unit_div (vz v) other of
                  Inl e \<Rightarrow> Inl e
                | Inr zz \<Rightarrow> Inr \<lparr> vx = xx, vy = yy, vz = zz \<rparr>)))"

definition Vec3_div_assign :: "Vec3 \<Rightarrow> Vec3 \<Rightarrow> error option \<times> Vec3" where
  "Vec3_div_assign this other =
     (case Vec3_div this other of
        Inl e \<Rightarrow> (Some e, this)
      | Inr v \<Rightarrow> (None, v))"

definition Vec3_div_assign_Unit :: "Vec3 \<Rightarrow> Unit \<Rightarrow> error option \<times> Vec3" where
  "Vec3_div_assign_Unit this other =
     (case Vec3_div_Unit this other of
        Inl e \<Rightarrow> (Some e, this)
      | Inr v \<Rightarrow> (None, v))"

definition Vec3_eq :: "Vec3 \<Rightarrow> Vec3 \<Rightarrow> bool" where
  "Vec3_eq v other =
     (Unit_eq (vx v) (vx other) \<and> Unit_eq (vy v) (vy other) \<and> Unit_eq (vz v) (vz other))"

text \<open>\<^verbatim>\<open>Vec3 v(1, 2, 3)\<close>: each \<^verbatim>\<open>int\<close> argument becomes a \<^verbatim>\<open>Unit\<close> through the
  converting constructor.\<close>

definition Vec3_of_ints :: "int32 \<Rightarrow> int32 \<Rightarrow> int32 \<Rightarrow> Vec3" where
  "Vec3_of_ints xx yy zz = \<lparr> vx = Unit_ctor xx, vy = Unit_ctor yy, vz = Unit_ctor zz \<rparr>"

section \<open>The specification's vocabulary\<close>

text \<open>
  The specification speaks of the raw values as integers, of the scale constant
  \<open>SCALE = 2^15\<close>, of 32-bit narrowing, and names the two failures.
\<close>

definition SCALE :: int where
  "SCALE = 2 ^ 15"

definition narrow32 :: "int \<Rightarrow> int32" where
  "narrow32 k = word_of_int k"

definition DivisionByZero :: error where
  "DivisionByZero = runtime_error ''Division by zero''"

definition InvalidArgument :: error where
  "InvalidArgument = runtime_error ''sqrt of negative number''"

text \<open>
  Multiplication as the specification words it: the product of the raw values plus
  \<open>SCALE/2\<close>, whatever the sign of the product, integer-divided (truncating, as the
  language's \<^verbatim>\<open>/\<close> does) by \<open>SCALE\<close>.
\<close>

definition mul_spec :: "int \<Rightarrow> int \<Rightarrow> int" where
  "mul_spec ra rb = (ra * rb + SCALE div 2) sdiv SCALE"

text \<open>
  Division as the specification words it: the dividend's raw value times \<open>SCALE\<close>, plus
  half the magnitude of the divisor's raw value when the divisor is positive, minus it
  when the divisor is negative, integer-divided by the divisor's raw value.
\<close>

definition div_spec :: "int \<Rightarrow> int \<Rightarrow> int" where
  "div_spec ra rb =
     (let bias = \<bar>rb\<bar> div 2
      in (if 0 < rb then ra * SCALE + bias else ra * SCALE - bias) sdiv rb)"

section \<open>Signed reading of the word operations\<close>

lemma sint_i32_bounds: "- 2147483648 \<le> sint (w :: int32)" "sint (w :: int32) < 2147483648"
  using sint_ge [of w] sint_lt [of w] by simp_all

lemma sint_wi_i64:
  "- 9223372036854775808 \<le> k \<Longrightarrow> k < 9223372036854775808 \<Longrightarrow> sint (word_of_int k :: int64) = k"
  by (simp add: sint_sbintrunc' signed_take_bit_int_eq_self)

lemma sint_wi_i32:
  "- 2147483648 \<le> k \<Longrightarrow> k < 2147483648 \<Longrightarrow> sint (word_of_int k :: int32) = k"
  by (simp add: sint_sbintrunc' signed_take_bit_int_eq_self)

lemma narrow_wi: "(ucast (word_of_int k :: int64) :: int32) = word_of_int k"
  by (simp add: ucast_down_wi is_down)

lemma widen_wi: "(scast (w :: int32) :: int64) = word_of_int (sint w)"
  by (rule scast_eq)

text \<open>Away from the most negative value, \<open>abs_i32\<close> is the absolute value.\<close>

lemma sint_abs_i32:
  assumes "sint v \<noteq> - 2147483648"
  shows "sint (abs_i32 v) = \<bar>sint v\<bar>"
proof -
  have neg: "sint (- v) = - sint v"
  proof -
    have "sint (- v) = signed_take_bit 31 (- sint v)"
      by (simp add: sint_word_ariths)
    also have "\<dots> = - sint v"
      using assms sint_i32_bounds [of v] by (intro signed_take_bit_int_eq_self) simp_all
    finally show ?thesis .
  qed
  show ?thesis
    by (simp add: abs_i32_def word_sless_alt neg)
qed

lemma sint_half_i32: "sint (sdiv_i32 v 2) = sint v sdiv 2"
proof -
  have "- 2147483648 \<le> sint v sdiv 2" "sint v sdiv 2 < 2147483648"
    using sint_i32_bounds [of v] by (simp_all add: signed_divide_int_def sgn_if) arith+
  then show ?thesis
    by (simp add: sdiv_i32_def sint_wi_i32)
qed

lemma prod_i32_bounds:
  "\<bar>sint (a :: int32) * sint (b :: int32)\<bar> \<le> 4611686018427387904"
proof -
  have "\<bar>sint a\<bar> \<le> 2147483648" "\<bar>sint b\<bar> \<le> 2147483648"
    using sint_i32_bounds [of a] sint_i32_bounds [of b] by simp_all
  then have "\<bar>sint a\<bar> * \<bar>sint b\<bar> \<le> 2147483648 * 2147483648"
    by (intro mult_mono) simp_all
  then show ?thesis by (simp add: abs_mult)
qed

section \<open>Multiplication and division on the raw values\<close>

text \<open>The 64-bit intermediate of \<open>Unit_mul\<close> never overflows, so the product is the
  one computed on the integers.\<close>

lemma Unit_mul_raw:
  "raw (Unit_mul a b) = word_of_int (mul_spec (sint (raw a)) (sint (raw b)))"
proof -
  let ?p = "sint (raw a) * sint (raw b)"
  have b: "\<bar>?p\<bar> \<le> 4611686018427387904" by (rule prod_i32_bounds)
  have one: "sint (scast ONE :: int64) = 32768" by (simp add: ONE_def)
  have half: "sint (sdiv_i32 ONE 2) = 16384"
    by (simp add: ONE_def sdiv_i32_def signed_divide_int_def)
  have "(scast (raw a) :: int64) * scast (raw b) + scast (sdiv_i32 ONE 2) = word_of_int (?p + 16384)"
    unfolding widen_wi half by (simp only: wi_hom_mult wi_hom_add)
  moreover have "sint (word_of_int (?p + 16384) :: int64) = ?p + 16384"
    using b by (intro sint_wi_i64) linarith+
  ultimately show ?thesis
    by (simp add: Unit_mul_def From_def Let_def sdiv_i64_def one narrow_wi mul_spec_def SCALE_def)
qed

text \<open>The same for \<open>Unit_div\<close>, as long as the divisor is not the most negative
  value, where \<open>abs_i32\<close> wraps.\<close>

lemma Unit_div_raw:
  assumes nz: "raw b \<noteq> 0" and nm: "sint (raw b) \<noteq> - 2147483648"
  shows "Unit_div a b = Inr (From (word_of_int (div_spec (sint (raw a)) (sint (raw b)))))"
proof -
  let ?ra = "sint (raw a)" and ?rb = "sint (raw b)"
  let ?bias = "\<bar>?rb\<bar> div 2"
  let ?s = "if 0 < ?rb then ?ra * 32768 + ?bias else ?ra * 32768 - ?bias"
  have adj: "sint (sdiv_i32 (abs_i32 (raw b)) 2) = ?bias"
    by (simp add: sint_half_i32 sint_abs_i32 [OF nm] signed_divide_int_def sgn_if)
  have one: "sint ONE = 32768" by (simp add: ONE_def)
  have pos: "(0 <s raw b) = (0 < ?rb)" by (simp add: word_sless_alt)
  have sum: "(scast (raw a) :: int64) * scast ONE
               + (if 0 <s raw b then scast (sdiv_i32 (abs_i32 (raw b)) 2)
                  else - scast (sdiv_i32 (abs_i32 (raw b)) 2)) = word_of_int ?s"
    unfolding widen_wi adj one pos
    by (simp only: wi_hom_mult wi_hom_add wi_hom_neg if_distrib [of word_of_int] split: if_split) simp
  have rng: "- 9223372036854775808 \<le> ?s" "?s < 9223372036854775808"
    using sint_i32_bounds [of "raw a"] sint_i32_bounds [of "raw b"] by (auto simp: abs_if)
  have s64: "sint (word_of_int ?s :: int64) = ?s"
    using rng by (rule sint_wi_i64)
  have b64: "sint (scast (raw b) :: int64) = ?rb"
    by (simp add: sint_up_scast is_up)
  have "Unit_div a b = Inr (From (ucast (sdiv_i64 (word_of_int ?s) (scast (raw b)))))"
    using nz sum by (simp add: Unit_div_def Let_def)
  also have "sdiv_i64 (word_of_int ?s) (scast (raw b)) = word_of_int (?s sdiv ?rb)"
    unfolding sdiv_i64_def s64 b64 ..
  also have "?s sdiv ?rb = div_spec ?ra ?rb"
    by (simp add: div_spec_def SCALE_def Let_def)
  finally show ?thesis
    by (simp only: narrow_wi)
qed

text \<open>Division throws exactly when the divisor's raw value is zero.\<close>

lemma Unit_div_Inl_iff:
  "(Unit_div a b = Inl e) = (raw b = 0 \<and> e = runtime_error ''Division by zero'')"
  by (auto simp add: Unit_div_def Let_def)

lemma Unit_div_zero: "raw b = 0 \<Longrightarrow> Unit_div a b = Inl (runtime_error ''Division by zero'')"
  by (simp add: Unit_div_def)

lemma Unit_div_nonzero: "raw b \<noteq> 0 \<Longrightarrow> \<exists>c. Unit_div a b = Inr c"
  by (simp add: Unit_div_def Let_def)

section \<open>Scalar division\<close>

text \<open>
  C2, as amended. For every pair of scalars \<open>a\<close>, \<open>b\<close> whose divisor has a raw value
  other than zero and other than the most negative 32-bit value, the raw value of
  \<open>a / b\<close> is the 32-bit narrowing of \<open>(raw a * SCALE + bias)\<close> integer-divided by
  \<open>raw b\<close>, where \<open>bias\<close> is half the magnitude of \<open>raw b\<close>, added when \<open>raw b\<close> is
  positive and subtracted when it is negative; the arithmetic is that of the integers,
  so nothing overflows in the 64-bit intermediate.
\<close>

theorem Unit_div_matches_spec:
  assumes "raw b \<noteq> 0" and "sint (raw b) \<noteq> - (2 ^ 31)"
  shows "Unit_div a b = Inr (From (narrow32 (div_spec (sint (raw a)) (sint (raw b)))))"
  using assms Unit_div_raw [of b a] by (simp add: narrow32_def)

theorem Unit_div_matches_spec_witness:
  "raw (Unit_ctor 2) \<noteq> 0 \<and> sint (raw (Unit_ctor 2)) \<noteq> - (2 ^ 31)
   \<and> Unit_div (Unit_ctor 5) (Unit_ctor 2) = Inr (From 81920)"
proof -
  have h1: "raw (Unit_ctor 2) \<noteq> 0" by (simp add: Unit_ctor_def ONE_def)
  have h2: "sint (raw (Unit_ctor 2)) \<noteq> - (2 ^ 31)" by (simp add: Unit_ctor_def ONE_def)
  have v: "narrow32 (div_spec (sint (raw (Unit_ctor 5))) (sint (raw (Unit_ctor 2)))) = 81920"
    by (simp add: Unit_ctor_def ONE_def narrow32_def div_spec_def SCALE_def signed_divide_int_def)
  show ?thesis
    using h1 h2 Unit_div_matches_spec [OF h1 h2, of "Unit_ctor 5"] by (simp add: v)
qed

text \<open>
  C2 as stated fails when the divisor's raw value is the most negative 32-bit value:
  \<^verbatim>\<open>std::abs\<close> of it wraps to itself, the halved "magnitude" is negative, and the bias
  ends up added instead of subtracted. With raw dividend \<open>65536\<close> the code returns raw
  \<open>-1\<close> where the formula of the claim gives \<open>0\<close>.
\<close>

theorem Unit_div_int_min_counterexample:
  "raw (From 0x80000000) \<noteq> 0
   \<and> Unit_div (From 65536) (From 0x80000000) = Inr (From (- 1))
   \<and> narrow32 (div_spec (sint (raw (From 65536))) (sint (raw (From 0x80000000)))) = 0
   \<and> Unit_div (From 65536) (From 0x80000000)
       \<noteq> Inr (From (narrow32 (div_spec (sint (raw (From 65536))) (sint (raw (From 0x80000000))))))"
proof -
  have c: "Unit_div (From 65536) (From 0x80000000) = Inr (From (- 1))"
    by code_simp
  have s: "narrow32 (div_spec (sint (raw (From 65536))) (sint (raw (From 0x80000000)))) = 0"
    by (simp add: From_def narrow32_def div_spec_def SCALE_def signed_divide_int_def)
  have n: "raw (From 0x80000000) \<noteq> 0"
    by (simp add: From_def)
  show ?thesis
    unfolding s c using n by (simp add: From_def)
qed

section \<open>Scalar multiplication\<close>

text \<open>Truncating division by the positive scale, read through the flooring \<open>div\<close>.\<close>

lemma sdiv_SCALE:
  "k sdiv SCALE = (if 0 \<le> k then k div SCALE else - ((- k) div SCALE))"
  by (simp add: signed_divide_int_def sgn_if SCALE_def)

lemma div_le_sdiv: "(k :: int) div l \<le> k sdiv l"
  by (simp add: divide_int_eq_signed_divide_int)

lemma round_ge_half_up: "(p + SCALE div 2) div SCALE \<le> (p + SCALE div 2) sdiv SCALE"
  by (rule div_le_sdiv)

lemma sdiv_mult_SCALE: "(k * SCALE) sdiv SCALE = k"
  by (simp add: signed_divide_int_def SCALE_def sgn_mult abs_mult sgn_mult_abs)

lemma round_tie:
  assumes "p mod SCALE = SCALE div 2"
  shows "(p + SCALE div 2) sdiv SCALE * SCALE = p + SCALE div 2"
proof -
  have "p = p div SCALE * SCALE + p mod SCALE"
    by simp
  then have "p + SCALE div 2 = p div SCALE * SCALE + (SCALE div 2 + SCALE div 2)"
    using assms by simp
  also have "SCALE div 2 + SCALE div 2 = SCALE"
    by (simp add: SCALE_def)
  finally have "p + SCALE div 2 = (p div SCALE + 1) * SCALE"
    by (simp add: algebra_simps)
  then show ?thesis
    by (simp only: sdiv_mult_SCALE)
qed

lemma round_negative:
  assumes "p + SCALE div 2 < 0"
  shows "p + SCALE div 2 \<le> (p + SCALE div 2) sdiv SCALE * SCALE"
  using assms unfolding sdiv_SCALE by (simp add: SCALE_def)

lemma mul_spec_ge_half_up: "(ra * rb + SCALE div 2) div SCALE \<le> mul_spec ra rb"
  unfolding mul_spec_def by (rule round_ge_half_up)

lemma mul_spec_tie:
  "(ra * rb) mod SCALE = SCALE div 2 \<Longrightarrow> mul_spec ra rb * SCALE = ra * rb + SCALE div 2"
  unfolding mul_spec_def by (rule round_tie)

lemma mul_spec_negative:
  "ra * rb + SCALE div 2 < 0 \<Longrightarrow> ra * rb + SCALE div 2 \<le> mul_spec ra rb * SCALE"
  unfolding mul_spec_def by (rule round_negative)

text \<open>
  C3. For every pair of scalars \<open>a\<close>, \<open>b\<close> the raw value of \<open>a * b\<close> is the 32-bit
  narrowing of \<open>(raw a * raw b + SCALE/2)\<close> integer-divided by \<open>SCALE\<close>, the bias being
  added whatever the sign of the product. The rounding is biased towards positive
  infinity: the quotient is never below the round-half-up value, a tie goes to the upper
  neighbour, and a product below \<open>-SCALE/2\<close> is rounded up by at least half a unit.
\<close>

theorem Unit_mul_matches_spec:
  "raw (Unit_mul a b) = narrow32 (mul_spec (sint (raw a)) (sint (raw b)))
   \<and> (sint (raw a) * sint (raw b) + SCALE div 2) div SCALE \<le> mul_spec (sint (raw a)) (sint (raw b))
   \<and> ((sint (raw a) * sint (raw b)) mod SCALE = SCALE div 2 \<longrightarrow>
        mul_spec (sint (raw a)) (sint (raw b)) * SCALE = sint (raw a) * sint (raw b) + SCALE div 2)
   \<and> (sint (raw a) * sint (raw b) + SCALE div 2 < 0 \<longrightarrow>
        sint (raw a) * sint (raw b) + SCALE div 2 \<le> mul_spec (sint (raw a)) (sint (raw b)) * SCALE)"
  using Unit_mul_raw [of a b] mul_spec_ge_half_up [of "sint (raw a)" "sint (raw b)"]
    mul_spec_tie [of "sint (raw a)" "sint (raw b)"]
    mul_spec_negative [of "sint (raw a)" "sint (raw b)"]
  by (simp add: narrow32_def)

text \<open>At raw values \<open>3\<close> and \<open>-16384\<close> the product \<open>-49152\<close> is a tie between raw
  \<open>-2\<close> and raw \<open>-1\<close>; the result is \<open>-1\<close>.\<close>

theorem Unit_mul_matches_spec_witness:
  "(sint (raw (From 3)) * sint (raw (From (- 16384)))) mod SCALE = SCALE div 2
   \<and> sint (raw (From 3)) * sint (raw (From (- 16384))) + SCALE div 2 < 0
   \<and> raw (Unit_mul (From 3) (From (- 16384))) = - 1
   \<and> mul_spec (sint (raw (From 3))) (sint (raw (From (- 16384)))) * SCALE = - 32768"
proof -
  have r: "sint (raw (From 3)) = 3" "sint (raw (From (- 16384))) = - 16384"
    by (simp_all add: From_def)
  have h1: "(sint (raw (From 3)) * sint (raw (From (- 16384)))) mod SCALE = SCALE div 2"
    unfolding r by (simp add: SCALE_def)
  have h2: "sint (raw (From 3)) * sint (raw (From (- 16384))) + SCALE div 2 < 0"
    unfolding r by (simp add: SCALE_def)
  have v: "mul_spec 3 (- 16384) = - 1"
    by (simp add: mul_spec_def SCALE_def signed_divide_int_def)
  show ?thesis
    using h1 h2 Unit_mul_matches_spec [of "From 3" "From (- 16384)"]
    unfolding r v by (simp add: narrow32_def SCALE_def)
qed

section \<open>Failures of division\<close>

lemma Unit_div_Inr_nonzero: "Unit_div a b = Inr c \<Longrightarrow> raw b \<noteq> 0"
  by (auto simp add: Unit_div_def)

lemma Vec3_div_Inl_iff:
  "(Vec3_div v w = Inl e)
   = ((raw (vx w) = 0 \<or> raw (vy w) = 0 \<or> raw (vz w) = 0)
      \<and> e = runtime_error ''Division by zero'')"
  by (auto simp add: Vec3_div_def Unit_div_Inl_iff split: sum.splits
      dest: Unit_div_Inr_nonzero)

lemma Vec3_div_Unit_Inl_iff:
  "(Vec3_div_Unit v b = Inl e) = (raw b = 0 \<and> e = runtime_error ''Division by zero'')"
  by (auto simp add: Vec3_div_Unit_def Unit_div_Inl_iff split: sum.splits
      dest: Unit_div_Inr_nonzero)

text \<open>
  C4. Scalar division by a divisor whose raw value is zero fails with the
  division-by-zero error whatever the dividend; division of a vector by a vector with a
  zero-raw component, or by a zero-raw scalar, fails the same way; and division fails in
  no other case and with no other error.
\<close>

theorem division_fails_only_by_zero:
  "(Unit_div a b = Inl e) = (raw b = 0 \<and> e = DivisionByZero)
   \<and> (Vec3_div v w = Inl e)
       = ((raw (vx w) = 0 \<or> raw (vy w) = 0 \<or> raw (vz w) = 0) \<and> e = DivisionByZero)
   \<and> (Vec3_div_Unit v b = Inl e) = (raw b = 0 \<and> e = DivisionByZero)"
proof (intro conjI)
  show "(Unit_div a b = Inl e) = (raw b = 0 \<and> e = DivisionByZero)"
    by (simp add: Unit_div_Inl_iff DivisionByZero_def)
  show "(Vec3_div v w = Inl e)
        = ((raw (vx w) = 0 \<or> raw (vy w) = 0 \<or> raw (vz w) = 0) \<and> e = DivisionByZero)"
    by (simp add: Vec3_div_Inl_iff DivisionByZero_def)
  show "(Vec3_div_Unit v b = Inl e) = (raw b = 0 \<and> e = DivisionByZero)"
    by (simp add: Vec3_div_Unit_Inl_iff DivisionByZero_def)
qed

theorem division_fails_only_by_zero_witness:
  "Unit_div (Unit_ctor 5) (Unit_ctor 0) = Inl DivisionByZero
   \<and> Vec3_div (Vec3_of_ints 1 2 3) (Vec3_of_ints 4 0 6) = Inl DivisionByZero
   \<and> Vec3_div_Unit (Vec3_of_ints 1 2 3) (Unit_ctor 0) = Inl DivisionByZero
   \<and> Unit_div (Unit_ctor 6) (Unit_ctor 2) \<noteq> Inl DivisionByZero"
  using division_fails_only_by_zero
    [of "Unit_ctor 5" "Unit_ctor 0" DivisionByZero "Vec3_of_ints 1 2 3" "Vec3_of_ints 4 0 6"]
    division_fails_only_by_zero
    [of "Unit_ctor 6" "Unit_ctor 2" DivisionByZero "Vec3_of_ints 1 2 3" "Vec3_of_ints 4 0 6"]
  by (simp add: Unit_ctor_def Vec3_of_ints_def ONE_def)

text \<open>
  C10. When the divisor's raw value is zero, \<open>a /= b\<close> fails with the division-by-zero
  error and leaves \<open>a\<close> as it was; so do both vector forms, for a divisor vector with a
  zero-raw component and for a zero-raw scalar divisor.
\<close>

theorem div_assign_keeps_operand_on_error:
  "(raw b = 0 \<longrightarrow> Unit_div_assign a b = (Some DivisionByZero, a))
   \<and> (raw (vx w) = 0 \<or> raw (vy w) = 0 \<or> raw (vz w) = 0 \<longrightarrow>
        Vec3_div_assign v w = (Some DivisionByZero, v))
   \<and> (raw b = 0 \<longrightarrow> Vec3_div_assign_Unit v b = (Some DivisionByZero, v))"
proof (intro conjI impI)
  assume "raw b = 0"
  then show "Unit_div_assign a b = (Some DivisionByZero, a)"
    by (simp add: Unit_div_assign_def Unit_div_zero DivisionByZero_def)
next
  assume "raw (vx w) = 0 \<or> raw (vy w) = 0 \<or> raw (vz w) = 0"
  then have "Vec3_div v w = Inl (runtime_error ''Division by zero'')"
    by (simp add: Vec3_div_Inl_iff)
  then show "Vec3_div_assign v w = (Some DivisionByZero, v)"
    by (simp add: Vec3_div_assign_def DivisionByZero_def)
next
  assume "raw b = 0"
  then have "Vec3_div_Unit v b = Inl (runtime_error ''Division by zero'')"
    by (simp add: Vec3_div_Unit_def Unit_div_zero)
  then show "Vec3_div_assign_Unit v b = (Some DivisionByZero, v)"
    by (simp add: Vec3_div_assign_Unit_def DivisionByZero_def)
qed

theorem div_assign_keeps_operand_on_error_witness:
  "raw (Unit_ctor 0) = 0 \<and> raw (vz (Vec3_of_ints 4 5 0)) = 0
   \<and> Unit_div_assign (Unit_ctor 5) (Unit_ctor 0) = (Some DivisionByZero, Unit_ctor 5)
   \<and> Vec3_div_assign (Vec3_of_ints 1 2 3) (Vec3_of_ints 4 5 0)
       = (Some DivisionByZero, Vec3_of_ints 1 2 3)
   \<and> Vec3_div_assign_Unit (Vec3_of_ints 1 2 3) (Unit_ctor 0)
       = (Some DivisionByZero, Vec3_of_ints 1 2 3)"
proof -
  have h1: "raw (Unit_ctor 0) = 0"
    by (simp add: Unit_ctor_def)
  have h2: "raw (vz (Vec3_of_ints 4 5 0)) = 0"
    by (simp add: Vec3_of_ints_def Unit_ctor_def)
  show ?thesis
    using h1 h2 div_assign_keeps_operand_on_error
      [of "Unit_ctor 0" "Unit_ctor 5" "Vec3_of_ints 4 5 0" "Vec3_of_ints 1 2 3"]
    by simp
qed

section \<open>Square root\<close>

text \<open>
  C5. \<open>SqrtNewton\<close> of a scalar with a negative raw value fails with the
  square-root-of-a-negative-number error, which is not the division-by-zero error;
  \<open>SqrtNewton\<close> of the zero-raw scalar returns the zero scalar and computes no Newton
  update.
\<close>

theorem SqrtNewton_negative_and_zero:
  "(raw u <s 0 \<longrightarrow> SqrtNewton u = Inl InvalidArgument)
   \<and> (raw u = 0 \<longrightarrow> SqrtNewton u = Inr (From 0) \<and> SqrtNewton_steps u = Inr (From 0, 0))
   \<and> InvalidArgument \<noteq> DivisionByZero"
  by (simp add: SqrtNewton_def SqrtNewton_steps_def InvalidArgument_def DivisionByZero_def
      Unit_ctor_def From_def)

theorem SqrtNewton_negative_and_zero_witness:
  "raw (Unit_ctor (- 1)) <s 0 \<and> SqrtNewton (Unit_ctor (- 1)) = Inl InvalidArgument
   \<and> raw (Unit_ctor 0) = 0 \<and> SqrtNewton (Unit_ctor 0) = Inr (From 0)
   \<and> SqrtNewton_steps (Unit_ctor 0) = Inr (From 0, 0)"
proof -
  have h1: "raw (Unit_ctor (- 1)) <s 0"
    by (simp add: Unit_ctor_def ONE_def word_sless_alt)
  have h2: "raw (Unit_ctor 0) = 0"
    by (simp add: Unit_ctor_def)
  show ?thesis
    using h1 h2 SqrtNewton_negative_and_zero [of "Unit_ctor (- 1)"]
      SqrtNewton_negative_and_zero [of "Unit_ctor 0"]
    by simp
qed

text \<open>
  The initial guess. For an input at or above \<open>ONE\<close> it is the input. Below \<open>ONE\<close> it
  is \<^verbatim>\<open>Unit(Unit::ONE)\<close>, whose raw value is \<open>ONE * ONE = 2^30\<close>: the scalar 32768.0,
  not 1.0.
\<close>

lemma SqrtNewton_guess_at_least_one: "ONE \<le>s raw u \<Longrightarrow> SqrtNewton_guess u = u"
  by (simp add: SqrtNewton_guess_def)

lemma SqrtNewton_guess_below_one:
  "raw u <s ONE \<Longrightarrow> raw (SqrtNewton_guess u) = 0x40000000"
  by (simp add: SqrtNewton_guess_def Unit_ctor_def ONE_def word_sless_alt word_sle_eq)

text \<open>
  C1 at the input with raw value \<open>0x4000\<close> (the scalar 0.5): the code's initial guess
  has raw value \<open>2^30\<close>, not \<open>SCALE\<close>; the ten iterations are used up on the way down
  and the result has raw value \<open>1048747\<close> (about 32.005), where the square root of 0.5
  has raw value \<open>23170\<close>.
\<close>

theorem SqrtNewton_guess_of_half:
  "0 <s raw (From 0x4000) \<and> raw (From 0x4000) <s ONE
   \<and> raw (SqrtNewton_guess (From 0x4000)) = 0x40000000
   \<and> raw (SqrtNewton_guess (From 0x4000)) \<noteq> narrow32 SCALE
   \<and> SqrtNewton_steps (From 0x4000) = Inr (From 1048747, 10)"
  by code_simp

section \<open>Comparison against integers\<close>

text \<open>
  C6. The ordering operators that take a plain integer compare the scalar's raw value
  with the integer as it is: \<open>a > n\<close> holds iff \<open>raw a > n\<close> as signed integers, and
  likewise for \<open>\<ge>\<close>, \<open><\<close> and \<open>\<le>\<close>. This is not the scalar-to-scalar comparison
  with the converted integer: the scalar 7 is above the integer 100, and not above the
  scalar 100.
\<close>

theorem Unit_int_ordering_unscaled:
  "Unit_gt_int a n = (sint n < sint (raw a))
   \<and> Unit_ge_int a n = (sint n \<le> sint (raw a))
   \<and> Unit_lt_int a n = (sint (raw a) < sint n)
   \<and> Unit_le_int a n = (sint (raw a) \<le> sint n)
   \<and> Unit_gt_int (Unit_ctor 7) 100 \<and> \<not> Unit_gt (Unit_ctor 7) (Unit_ctor 100)"
  by (simp add: Unit_gt_int_def Unit_ge_int_def Unit_lt_int_def Unit_le_int_def Unit_gt_def
      Unit_ctor_def ONE_def word_sless_alt word_sle_eq)

text \<open>The converting constructor does not wrap on integers of magnitude below \<open>2^16\<close>.\<close>

lemma sint_Unit_ctor:
  assumes "- 65536 \<le> sint n" and "sint n < 65536"
  shows "sint (raw (Unit_ctor n)) = sint n * SCALE"
proof -
  have "sint (n * ONE) = signed_take_bit 31 (sint n * 32768)"
    by (simp add: sint_word_ariths ONE_def)
  also have "\<dots> = sint n * 32768"
    using assms by (intro signed_take_bit_int_eq_self) simp_all
  finally show ?thesis
    by (simp add: Unit_ctor_def SCALE_def)
qed

text \<open>
  C9. \<open>a == n\<close> for a plain integer \<open>n\<close> holds iff \<open>raw a = n * SCALE\<close> (the 32-bit
  product; for \<open>n\<close> of magnitude below \<open>2^16\<close> the product of the integers), whereas
  \<open>a > n\<close> compares the raw value with \<open>n\<close> unscaled. The scalar 7 is equal to 7 and,
  its raw value being above 6, greater than 6; the scalar of raw value 7 is greater than
  6 too, and not equal to 7.
\<close>

theorem Unit_eq_int_scaled:
  "Unit_eq_int a n = (raw a = n * ONE)
   \<and> (- 65536 \<le> sint n \<and> sint n < 65536 \<longrightarrow>
        Unit_eq_int a n = (sint (raw a) = sint n * SCALE))
   \<and> Unit_gt_int a n = (sint n < sint (raw a))
   \<and> Unit_eq_int (Unit_ctor 7) 7 \<and> Unit_gt_int (Unit_ctor 7) 6
   \<and> Unit_gt_int (From 7) 6 \<and> \<not> Unit_eq_int (From 7) 7"
proof (intro conjI impI)
  show "Unit_eq_int a n = (raw a = n * ONE)"
    by (simp add: Unit_eq_int_def Unit_eq_def Unit_ctor_def)
  show "Unit_eq_int a n = (sint (raw a) = sint n * SCALE)"
    if "- 65536 \<le> sint n \<and> sint n < 65536"
  proof -
    have "Unit_eq_int a n = (sint (raw a) = sint (raw (Unit_ctor n)))"
      by (simp add: Unit_eq_int_def Unit_eq_def word_eq_iff_signed [of "raw a"])
    then show ?thesis
      using that by (simp add: sint_Unit_ctor)
  qed
  show "Unit_gt_int a n = (sint n < sint (raw a))"
    by (simp add: Unit_gt_int_def word_sless_alt)
  show "Unit_eq_int (Unit_ctor 7) 7"
    by (simp add: Unit_eq_int_def Unit_eq_def)
  show "Unit_gt_int (Unit_ctor 7) 6"
    by (simp add: Unit_gt_int_def Unit_ctor_def ONE_def word_sless_alt)
  show "Unit_gt_int (From 7) 6"
    by (simp add: Unit_gt_int_def From_def word_sless_alt)
  show "\<not> Unit_eq_int (From 7) 7"
    by (simp add: Unit_eq_int_def Unit_eq_def Unit_ctor_def From_def ONE_def)
qed

theorem Unit_eq_int_scaled_witness:
  "- 65536 \<le> sint (3 :: int32) \<and> sint (3 :: int32) < 65536
   \<and> Unit_eq_int (From 98304) 3 \<and> \<not> Unit_eq_int (From 3) 3 \<and> Unit_gt_int (From 3) 2"
proof -
  have h: "- 65536 \<le> sint (3 :: int32) \<and> sint (3 :: int32) < 65536"
    by simp
  show ?thesis
    using h Unit_eq_int_scaled [of "From 98304" 3] Unit_eq_int_scaled [of "From 3" 3]
      Unit_eq_int_scaled [of "From 3" 2]
    by (simp add: From_def SCALE_def ONE_def)
qed

section \<open>Addition and negation\<close>

text \<open>
  C7. Negation negates the raw value, addition adds the raw values, both in 32-bit
  wrap-around arithmetic, and \<open>a + (-a)\<close> is equal to the scalar 0 for every scalar \<open>a\<close>.
\<close>

theorem Unit_add_neg_is_zero:
  "Unit_eq (Unit_add a (Unit_neg a)) (Unit_ctor 0)
   \<and> raw (Unit_neg a) = - raw a
   \<and> raw (Unit_add a b) = raw a + raw b"
  by (simp add: Unit_eq_def Unit_add_def Unit_neg_def Unit_ctor_def From_def)

section \<open>Dot product\<close>

text \<open>
  C8. \<open>Dot v1 v2\<close> is the scalar sum of the three scalar products, taken axis by axis
  in the order x, y, z; each product is rounded by the scalar multiplication on its own
  before the (wrapping) additions; and the dot product of (1,2,3) and (4,5,6) is equal
  to 32.
\<close>

theorem Dot_is_sum_of_products:
  "Dot v1 v2 = Unit_add (Unit_add (Unit_mul (vx v1) (vx v2)) (Unit_mul (vy v1) (vy v2)))
                        (Unit_mul (vz v1) (vz v2))
   \<and> raw (Dot v1 v2)
       = narrow32 (mul_spec (sint (raw (vx v1))) (sint (raw (vx v2)))
                   + mul_spec (sint (raw (vy v1))) (sint (raw (vy v2)))
                   + mul_spec (sint (raw (vz v1))) (sint (raw (vz v2))))
   \<and> Unit_eq_int (Dot (Vec3_of_ints 1 2 3) (Vec3_of_ints 4 5 6)) 32"
proof (intro conjI)
  show "Dot v1 v2 = Unit_add (Unit_add (Unit_mul (vx v1) (vx v2)) (Unit_mul (vy v1) (vy v2)))
                             (Unit_mul (vz v1) (vz v2))"
    by (simp add: Dot_def)
  show "raw (Dot v1 v2)
        = narrow32 (mul_spec (sint (raw (vx v1))) (sint (raw (vx v2)))
                    + mul_spec (sint (raw (vy v1))) (sint (raw (vy v2)))
                    + mul_spec (sint (raw (vz v1))) (sint (raw (vz v2))))"
    by (simp add: Dot_def Unit_add_def From_def Unit_mul_raw narrow32_def)
  show "Unit_eq_int (Dot (Vec3_of_ints 1 2 3) (Vec3_of_ints 4 5 6)) 32"
    by code_simp
qed

end
